theory Spec2Isabelle
  imports Main "HOL-Library.AList" "HOL-Library.Sublist"
begin

section \<open>Values, objects and the reactive store\<close>

text \<open>
  The session coordinator (the second document of
  \<^verbatim>\<open>SocialSecurityNumber.tsx\<close>) talks to the Onyx store, to the API client, to
  the logger and to the navigation layer. None of these collaborators is part of the
  sources: each call to one of them is recorded as an effect, in program order, and the
  store's merge and set are given their documented meaning on flat objects. Constants
  of \<^verbatim>\<open>CONST\<close>, \<^verbatim>\<open>CONFIG\<close> and \<^verbatim>\<open>ROUTES\<close> and the helper functions of
  other modules are parameters of the functions that use them.
\<close>

text \<open>The auto-auth state enum, \<^verbatim>\<open>CONST.AUTO_AUTH_STATE\<close>.\<close>

datatype AutoAuthState = NOT_STARTED | SIGNING_IN | JUST_SIGNED_IN | FAILED

text \<open>JavaScript values that occur in the patches and parameters of the module.\<close>

datatype jsval =
    VStr string
  | VNum int
  | VBool bool
  | VNull
  | VUndefined
  | VAutoAuth AutoAuthState

text \<open>An object literal is the list of its properties, in the order they are written.\<close>

type_synonym obj = "(string \<times> jsval) list"

text \<open>Truthiness of a string that may be null or undefined: present and not empty.\<close>

fun truthy :: "string option \<Rightarrow> bool" where
  "truthy None = False"
| "truthy (Some s) = (s \<noteq> [])"

text \<open>A string that may be undefined, and one that may be null, as property values.\<close>

fun str_or_undefined :: "string option \<Rightarrow> jsval" where
  "str_or_undefined None = VUndefined"
| "str_or_undefined (Some s) = VStr s"

fun str_or_null :: "string option \<Rightarrow> jsval" where
  "str_or_null None = VNull"
| "str_or_null (Some s) = VStr s"

text \<open>
  An object literal with a spread: the properties written after the spread overwrite
  those of the spread object, in order.
\<close>

fun obj_assign :: "obj \<Rightarrow> obj \<Rightarrow> obj" where
  "obj_assign target [] = target"
| "obj_assign target ((k, v) # ps) = obj_assign (AList.update k v target) ps"

datatype onyx_key = SESSION | ACCOUNT | CREDENTIALS | LAST_OPENED_PUBLIC_ROOM_ID

text \<open>
  \<^verbatim>\<open>Onyx.merge(key, patch)\<close> on an object: every property of the patch overwrites
  the stored one, a null property removes it, an undefined one is skipped, the others
  stay as they are.
\<close>

fun onyx_merge_obj :: "obj \<Rightarrow> obj \<Rightarrow> obj" where
  "onyx_merge_obj target [] = target"
| "onyx_merge_obj target ((k, v) # ps) =
     onyx_merge_obj
       (if v = VNull then AList.delete k target
        else if v = VUndefined then target
        else AList.update k v target) ps"

datatype onyx_method = METHOD_MERGE | METHOD_SET

type_synonym OnyxUpdate = "onyx_method \<times> onyx_key \<times> obj"

record OnyxData =
  optimisticData :: "OnyxUpdate list"
  successData :: "OnyxUpdate list"
  failureData :: "OnyxUpdate list"

text \<open>
  The response of the AuthenticatePusher command: the status fields the module reads
  and the authorization data the channel library expects.
\<close>

record response =
  jsonCode :: "int option"
  message :: "string option"
  auth :: "string option"
  channel_data :: "string option"
  shared_secret :: "string option"

text \<open>
  Every call to a collaborator, as the module makes it. \<^verbatim>\<open>Log.info\<close> keeps its
  message and its two flags (send now, force the flush to the server); the parameter
  objects of the log calls are left out.
\<close>

datatype effect =
    OnyxMerge onyx_key obj
  | OnyxSet onyx_key obj
  | OnyxMergeString onyx_key string
  | LogInfo string bool bool
  | LogHmmm string
  | ConsoleDebug string string
  | HideContextMenu bool
  | ApiWrite string obj
  | ApiWriteWithData string obj OnyxData
  | MakeRequestWithSideEffects string obj
  | GetDeviceInfoWithID
  | GetInitialURL
  | ClearCache
  | TimingClearData
  | RedirectToSignIn
  | Navigate string
  | NetworkStoreSetSupportAuthToken string
  | AuthenticationReauthenticate string
  | PusherReconnect
  | Callback "string option" "response option"
  | ReauthenticatePusherCall

text \<open>The store maps a key to the object kept under it; an absent key holds no property.\<close>

type_synonym store = "onyx_key \<Rightarrow> obj"

fun apply_effect :: "effect \<Rightarrow> store \<Rightarrow> store" where
  "apply_effect (OnyxMerge k patch) s = s(k := onyx_merge_obj (s k) patch)"
| "apply_effect (OnyxSet k v) s = s(k := v)"
| "apply_effect _ s = s"

fun run_effects :: "effect list \<Rightarrow> store \<Rightarrow> store" where
  "run_effects [] s = s"
| "run_effects (e # es) s = run_effects es (apply_effect e s)"

fun apply_update :: "OnyxUpdate \<Rightarrow> store \<Rightarrow> store" where
  "apply_update (METHOD_MERGE, k, patch) s = s(k := onyx_merge_obj (s k) patch)"
| "apply_update (METHOD_SET, k, v) s = s(k := v)"

fun apply_updates :: "OnyxUpdate list \<Rightarrow> store \<Rightarrow> store" where
  "apply_updates [] s = s"
| "apply_updates (u # us) s = apply_updates us (apply_update u s)"

text \<open>How a promise the module starts ends: it resolves, rejects or stays pending.\<close>

datatype outcome = Resolves | Rejects | NeverSettles

section \<open>The module's state\<close>

record Credentials =
  login :: "string option"
  autoGeneratedLogin :: "string option"
  autoGeneratedPassword :: "string option"
  validateCode :: "string option"

datatype promise_state = Pending | Resolved bool | Rejected

text \<open>
  The module-level variables, and the promises \<^verbatim>\<open>waitForUserSignIn\<close> has handed
  out: a resolver is the index of the promise it settles.
\<close>

record module_state =
  sessionAuthTokenType :: "string option"
  sessionAuthToken :: "string option"
  authPromiseResolver :: "nat option"
  credentials :: Credentials
  preferredLocale :: "string option"
  promises :: "promise_state list"

definition initial_state :: module_state where
  "initial_state =
     \<lparr>sessionAuthTokenType = Some [], sessionAuthToken = None, authPromiseResolver = None,
      credentials = \<lparr>login = None, autoGeneratedLogin = None, autoGeneratedPassword = None,
                     validateCode = None\<rparr>,
      preferredLocale = None, promises = []\<rparr>"

text \<open>
  Constants of other modules the coordinator reads: the three routes of
  \<^verbatim>\<open>ROUTES\<close> it names, and values of \<^verbatim>\<open>CONFIG\<close> and \<^verbatim>\<open>CONST\<close>.
\<close>

record route_consts =
  SIGN_IN_MODAL :: string
  REPORT_WITH_ID_DETAILS_route :: string
  REPORT_WITH_ID_DETAILS_SHARE_CODE_route :: string

record coordinator_consts =
  PARTNER_NAME :: string
  PARTNER_PASSWORD :: string
  ROUTES :: route_consts
  DEFAULT_ACCOUNT_DATA :: obj
  VALIDATE_TFA_CODE_FORM :: string
  VALIDATE_CODE_FORM :: string
  JSON_CODE_SUCCESS :: int
  JSON_CODE_NOT_AUTHENTICATED :: int

text \<open>
  The two helpers of \<^verbatim>\<open>ReportUtils\<close> the coordinator calls: the report id a link
  encodes, and the \<^verbatim>\<open>reportID\<close> property of a route's parsed parameters. Each may
  give no string at all.
\<close>

record report_utils =
  getReportIDFromLink :: "string option \<Rightarrow> string option"
  parseReportRouteParams :: "string \<Rightarrow> string option"

text \<open>What the coordinator reads from its collaborators at the time of a call.\<close>

record environment =
  networkAuthToken :: "string option"
  isActiveRoute :: "string \<Rightarrow> bool"
  initialURL :: "string option"
  reportUtils :: report_utils

section \<open>The session coordinator\<close>

subsection \<open>The session subscription and waitForUserSignIn\<close>

text \<open>\<^verbatim>\<open>session?.field ?? null\<close> for a string field.\<close>

fun session_field :: "obj option \<Rightarrow> string \<Rightarrow> string option" where
  "session_field None k = None"
| "session_field (Some ob) k = (case map_of ob k of Some (VStr s) \<Rightarrow> Some s | _ \<Rightarrow> None)"

text \<open>Calling a promise's resolve function settles it once; later calls change nothing.\<close>

definition resolve :: "nat \<Rightarrow> bool \<Rightarrow> promise_state list \<Rightarrow> promise_state list" where
  "resolve p v ps = (if p < length ps \<and> ps ! p = Pending then ps[p := Resolved v] else ps)"

definition sessionCallback :: "obj option \<Rightarrow> module_state \<Rightarrow> module_state" where
  "sessionCallback session st =
     (let st1 = st\<lparr>sessionAuthTokenType := session_field session ''authTokenType'',
                   sessionAuthToken := session_field session ''authToken''\<rparr>
      in case authPromiseResolver st1 of
           None \<Rightarrow> st1
         | Some p \<Rightarrow>
             if truthy (sessionAuthToken st1)
             then st1\<lparr>promises := resolve p True (promises st1), authPromiseResolver := None\<rparr>
             else st1)"

text \<open>The promise returned is the second component: its index among the promises.\<close>

definition waitForUserSignIn :: "module_state \<Rightarrow> module_state \<times> nat" where
  "waitForUserSignIn st =
     (let p = length (promises st);
          st1 = st\<lparr>promises := promises st @ [Pending]\<rparr>
      in if truthy (sessionAuthToken st1)
         then (st1\<lparr>promises := resolve p True (promises st1)\<rparr>, p)
         else (st1\<lparr>authPromiseResolver := Some p\<rparr>, p))"

datatype coordinator_op = WaitForUserSignIn | SessionChanged "obj option"

fun step :: "coordinator_op \<Rightarrow> module_state \<Rightarrow> module_state" where
  "step WaitForUserSignIn st = fst (waitForUserSignIn st)"
| "step (SessionChanged session) st = sessionCallback session st"

fun run_ops :: "coordinator_op list \<Rightarrow> module_state \<Rightarrow> module_state" where
  "run_ops [] st = st"
| "run_ops (x # xs) st = run_ops xs (step x st)"

subsection \<open>signOut, isAnonymousUser, signOutAndRedirectToSignIn, checkIfActionIsAllowed\<close>

text \<open>
  A function that starts promises returns two lists: the effects of the call itself,
  and the effects of the continuations that run once the promises have settled.
  \<^verbatim>\<open>API.write('LogOut', params)\<close> is a statement of its own, its result is dropped:
  how the command ends is an argument that nothing reads.
\<close>

definition signOut ::
  "coordinator_consts \<Rightarrow> environment \<Rightarrow> module_state \<Rightarrow> outcome \<Rightarrow> outcome
   \<Rightarrow> effect list \<times> effect list" where
  "signOut K env st logOutCommand cacheCleared =
     (let params =
            [(''authToken'', str_or_null (networkAuthToken env)),
             (''partnerUserID'',
              VStr (case autoGeneratedLogin (credentials st) of None \<Rightarrow> [] | Some l \<Rightarrow> l)),
             (''partnerName'', VStr (PARTNER_NAME K)),
             (''partnerPassword'', VStr (PARTNER_PASSWORD K)),
             (''shouldRetry'', VBool False)]
      in ([LogInfo ''Flushing logs before signing out'' True True,
           ApiWrite ''LogOut'' params,
           ClearCache,
           TimingClearData],
          (case cacheCleared of
             Resolves \<Rightarrow> [LogInfo ''Cleared all cache data'' True True]
           | _ \<Rightarrow> [])))"

definition isAnonymousUser :: "module_state \<Rightarrow> bool" where
  "isAnonymousUser st \<longleftrightarrow> sessionAuthTokenType st = Some ''anonymousAccount''"

definition signOutAndRedirectToSignIn ::
  "coordinator_consts \<Rightarrow> environment \<Rightarrow> module_state \<Rightarrow> outcome \<Rightarrow> outcome
   \<Rightarrow> effect list \<times> effect list" where
  "signOutAndRedirectToSignIn K env st logOutCommand cacheCleared =
     (let start = [LogInfo ''Redirecting to Sign In because signOut() was called'' False False,
                   HideContextMenu False]
      in if \<not> isAnonymousUser st
         then (let (now, later) = signOut K env st logOutCommand cacheCleared
               in (start @ now @ [RedirectToSignIn], later))
         else if isActiveRoute env (SIGN_IN_MODAL (ROUTES K)) then (start, [])
         else (start @ [Navigate (SIGN_IN_MODAL (ROUTES K)), GetInitialURL],
               (case getReportIDFromLink (reportUtils env) (initialURL env) of
                  None \<Rightarrow> []
                | Some reportID \<Rightarrow>
                    if reportID \<noteq> []
                    then [OnyxMergeString LAST_OPENED_PUBLIC_ROOM_ID reportID]
                    else [])))"

text \<open>
  The result is the union type of the source, \<^verbatim>\<open>TCallback | (() => void)\<close>: the
  callback on the left, the replacement on the right. The replacement reads the
  module's state when it is invoked.
\<close>

definition checkIfActionIsAllowed ::
  "coordinator_consts \<Rightarrow> module_state \<Rightarrow> 'callback \<Rightarrow> bool
   \<Rightarrow> 'callback + (environment \<Rightarrow> module_state \<Rightarrow> outcome \<Rightarrow> outcome
                    \<Rightarrow> effect list \<times> effect list)" where
  "checkIfActionIsAllowed K st callback isAnonymousAction =
     (if isAnonymousUser st \<and> \<not> isAnonymousAction
      then Inr (\<lambda>env st'. signOutAndRedirectToSignIn K env st')
      else Inl callback)"

subsection \<open>signInWithValidateCode\<close>

text \<open>
  The call reads the credentials and builds the three patch lists at once; the command
  is written when the device information has arrived, and the preferred locale is read
  then (\<open>st'\<close> is the module's state at that time).
\<close>

definition signInWithValidateCode ::
  "coordinator_consts \<Rightarrow> module_state \<Rightarrow> int \<Rightarrow> string \<Rightarrow> string
   \<Rightarrow> effect list \<times> (string \<Rightarrow> module_state \<Rightarrow> effect list)" where
  "signInWithValidateCode K st accountID code twoFactorAuthCode =
     (let theValidateCode =
            (if twoFactorAuthCode \<noteq> [] then validateCode (credentials st) else Some code);
          optimistic =
            [(METHOD_MERGE, ACCOUNT,
              obj_assign (DEFAULT_ACCOUNT_DATA K)
                [(''isLoading'', VBool True),
                 (''loadingForm'',
                  VStr (if twoFactorAuthCode \<noteq> [] then VALIDATE_TFA_CODE_FORM K
                        else VALIDATE_CODE_FORM K))]),
             (METHOD_MERGE, SESSION, [(''autoAuthState'', VAutoAuth SIGNING_IN)])];
          success =
            [(METHOD_MERGE, ACCOUNT, [(''isLoading'', VBool False), (''loadingForm'', VNull)]),
             (METHOD_MERGE, CREDENTIALS,
              [(''accountID'', VNum accountID),
               (''validateCode'', str_or_undefined theValidateCode)]),
             (METHOD_MERGE, SESSION, [(''autoAuthState'', VAutoAuth JUST_SIGNED_IN)])];
          failure =
            [(METHOD_MERGE, ACCOUNT, [(''isLoading'', VBool False), (''loadingForm'', VNull)]),
             (METHOD_MERGE, SESSION, [(''autoAuthState'', VAutoAuth FAILED)])]
      in ([GetDeviceInfoWithID],
          (\<lambda>deviceInfo st'.
             [ApiWriteWithData ''SigninUserWithLink''
                [(''accountID'', VNum accountID),
                 (''validateCode'', str_or_undefined theValidateCode),
                 (''twoFactorAuthCode'', VStr twoFactorAuthCode),
                 (''preferredLocale'', str_or_null (preferredLocale st')),
                 (''deviceInfo'', VStr deviceInfo)]
                \<lparr>optimisticData = optimistic, successData = success,
                 failureData = failure\<rparr>])))"

subsection \<open>initAutoAuthState\<close>

definition signedInStates :: "AutoAuthState list" where
  "signedInStates = [SIGNING_IN, JUST_SIGNED_IN]"

definition initAutoAuthState :: "AutoAuthState \<Rightarrow> effect list" where
  "initAutoAuthState cachedAutoAuthState =
     [OnyxMerge SESSION
        [(''autoAuthState'',
          VAutoAuth (if List.member signedInStates cachedAutoAuthState
                     then JUST_SIGNED_IN else NOT_STARTED))]]"

subsection \<open>setSupportAuthToken\<close>

definition setSupportAuthToken :: "string \<Rightarrow> string \<Rightarrow> int \<Rightarrow> effect list" where
  "setSupportAuthToken supportAuthToken email accountID =
     (if supportAuthToken \<noteq> []
      then [OnyxMerge SESSION
              [(''authToken'', VStr ''1''),
               (''supportAuthToken'', VStr supportAuthToken),
               (''email'', VStr email),
               (''accountID'', VNum accountID)]]
      else [OnyxSet SESSION []])
     @ [NetworkStoreSetSupportAuthToken supportAuthToken]"

subsection \<open>reauthenticatePusher\<close>

text \<open>
  The function the module throttles: it logs, asks for a new token and, depending on how
  that request ends, reconnects the channel or reports that the client is offline.
\<close>

definition reauthenticatePusher_body :: "outcome \<Rightarrow> effect list \<times> effect list" where
  "reauthenticatePusher_body reauthentication =
     ([LogInfo ''[Pusher] Re-authenticating and then reconnecting'' False False,
       AuthenticationReauthenticate ''AuthenticatePusher''],
      (case reauthentication of
         Resolves \<Rightarrow> [PusherReconnect]
       | Rejects \<Rightarrow>
           [ConsoleDebug ''[PusherConnectionManager]''
              ''Unable to re-authenticate Pusher because we are offline.'']
       | NeverSettles \<Rightarrow> []))"

text \<open>The arguments the module gives to \<^verbatim>\<open>throttle\<close>: the wait and the options.\<close>

record throttle_options =
  trailing :: bool

definition reauthenticatePusher_wait :: nat where
  "reauthenticatePusher_wait = 5000"

definition reauthenticatePusher_options :: throttle_options where
  "reauthenticatePusher_options = \<lparr>trailing = False\<rparr>"

text \<open>
  Modelled from the spec: lodash's \<^verbatim>\<open>throttle\<close>, which the module imports and which
  is not among the sources. The spec's words: rate-limited, at least the wait between
  two executions, triggers within the window collapse into one execution, and without
  the trailing option nothing is executed later on their behalf. Times are in
  milliseconds. The throttle remembers when it last executed the function and whether a
  collapsed trigger waits for the end of the window.
\<close>

record throttle_state =
  lastInvokeTime :: "nat option"
  trailingPending :: bool
  executions :: nat

datatype throttle_event = Trigger nat | WindowEnd nat

definition throttle_start :: throttle_state where
  "throttle_start = \<lparr>lastInvokeTime = None, trailingPending = False, executions = 0\<rparr>"

text \<open>
  Modelled from the spec: the window of lodash's \<^verbatim>\<open>throttle\<close> (not among the
  sources) is open for the wait after the last execution.
\<close>

definition window_open :: "nat \<Rightarrow> throttle_state \<Rightarrow> nat \<Rightarrow> bool" where
  "window_open wait ts now =
     (case lastInvokeTime ts of None \<Rightarrow> False | Some t \<Rightarrow> now < t + wait)"

text \<open>
  Modelled from the spec: one event of lodash's \<^verbatim>\<open>throttle\<close> (not among the
  sources). A trigger inside the window is collapsed: it executes nothing, and it waits
  for the end of the window only under the trailing option. A trigger outside the window
  executes the function and opens a new window. At the end of a window a waiting trigger,
  if there is one, is executed.
\<close>

fun throttle_step :: "nat \<Rightarrow> throttle_options \<Rightarrow> throttle_event \<Rightarrow> throttle_state \<Rightarrow> throttle_state" where
  "throttle_step wait opts (Trigger now) ts =
     (if window_open wait ts now
      then ts\<lparr>trailingPending := trailing opts\<rparr>
      else ts\<lparr>lastInvokeTime := Some now, trailingPending := False,
              executions := Suc (executions ts)\<rparr>)"
| "throttle_step wait opts (WindowEnd now) ts =
     (if \<not> window_open wait ts now \<and> trailingPending ts
      then ts\<lparr>lastInvokeTime := Some now, trailingPending := False,
              executions := Suc (executions ts)\<rparr>
      else ts)"

text \<open>
  Modelled from the spec: lodash's \<^verbatim>\<open>throttle\<close> (not among the sources) over a
  sequence of triggers and window ends, in the order they happen.
\<close>

fun throttle_run :: "nat \<Rightarrow> throttle_options \<Rightarrow> throttle_event list \<Rightarrow> throttle_state \<Rightarrow> throttle_state" where
  "throttle_run wait opts [] ts = ts"
| "throttle_run wait opts (e # es) ts = throttle_run wait opts es (throttle_step wait opts e ts)"

text \<open>\<^verbatim>\<open>reauthenticatePusher\<close>: the throttle with the module's arguments.\<close>

definition reauthenticatePusher :: "throttle_event list \<Rightarrow> throttle_state \<Rightarrow> throttle_state" where
  "reauthenticatePusher = throttle_run reauthenticatePusher_wait reauthenticatePusher_options"

fun event_time :: "throttle_event \<Rightarrow> nat" where
  "event_time (Trigger t) = t"
| "event_time (WindowEnd t) = t"

subsection \<open>authenticatePusher\<close>

text \<open>
  How the AuthenticatePusher request ends: it is fulfilled with a response (which may
  be undefined), it is rejected, or it stays pending.
\<close>

datatype 'a request_outcome = Fulfilled 'a | RejectedWith string | StaysPending

definition failedAuthorization :: response where
  "failedAuthorization =
     \<lparr>jsonCode = None, message = None, auth = Some [], channel_data = None,
      shared_secret = None\<rparr>"

text \<open>A number and a string in a template literal; an undefined one prints as such.\<close>

fun string_of_nat :: "nat \<Rightarrow> string" where
  "string_of_nat n =
     (if n < 10 then [''0123456789'' ! n]
      else string_of_nat (n div 10) @ [''0123456789'' ! (n mod 10)])"

definition string_of_int :: "int \<Rightarrow> string" where
  "string_of_int i = (if i < 0 then CHR ''-'' # string_of_nat (nat (- i)) else string_of_nat (nat i))"

fun template_number :: "int option \<Rightarrow> string" where
  "template_number None = ''undefined''"
| "template_number (Some i) = string_of_int i"

fun template_string :: "string option \<Rightarrow> string" where
  "template_string None = ''undefined''"
| "template_string (Some s) = s"

text \<open>\<^verbatim>\<open>response?.jsonCode\<close> and \<^verbatim>\<open>response?.message\<close>.\<close>

fun response_jsonCode :: "response option \<Rightarrow> int option" where
  "response_jsonCode None = None"
| "response_jsonCode (Some r) = jsonCode r"

fun response_message :: "response option \<Rightarrow> string option" where
  "response_message None = None"
| "response_message (Some r) = message r"

text \<open>
  A call to a collaborator may throw: \<open>throws\<close> says which calls do. A sequence of
  calls runs in order up to the first call that throws; that call has been made, the
  ones after it have not. The result is the calls made and whether one threw.
\<close>

fun run_calls :: "(effect \<Rightarrow> bool) \<Rightarrow> effect list \<Rightarrow> effect list \<times> bool" where
  "run_calls throws [] = ([], False)"
| "run_calls throws (c # cs) =
     (if throws c then ([c], True)
      else (let (made, threw) = run_calls throws cs in (c # made, threw)))"

text \<open>The calls of the \<^verbatim>\<open>then\<close> handler, in order, for a response.\<close>

definition then_handler :: "coordinator_consts \<Rightarrow> response option \<Rightarrow> effect list" where
  "then_handler K response =
     (if response_jsonCode response = Some (JSON_CODE_NOT_AUTHENTICATED K)
      then [LogHmmm ''[PusherAuthorizer] Unable to authenticate Pusher because authToken is expired'',
            Callback (Some ''Pusher failed to authenticate because authToken is expired'')
              (Some failedAuthorization),
            ReauthenticatePusherCall]
      else if response_jsonCode response \<noteq> Some (JSON_CODE_SUCCESS K)
      then [LogHmmm ''[PusherAuthorizer] Unable to authenticate Pusher for reason other than expired session'',
            Callback
              (Some (''Pusher failed to authenticate because code: ''
                     @ template_number (response_jsonCode response)
                     @ '' message: '' @ template_string (response_message response)))
              (Some failedAuthorization)]
      else [LogInfo ''[PusherAuthorizer] Pusher authenticated successfully'' False False,
            Callback None response])"

text \<open>The calls of the \<^verbatim>\<open>catch\<close> handler.\<close>

definition catch_handler :: "effect list" where
  "catch_handler =
     [LogHmmm ''[PusherAuthorizer] Unhandled error: '',
      Callback (Some ''AuthenticatePusher request failed'') (Some failedAuthorization)]"

text \<open>
  The first list holds the effects of the call, the second those of the handlers that
  run when the request has settled. The \<^verbatim>\<open>catch\<close> is chained after the
  \<^verbatim>\<open>then\<close>: its handler runs when the request is rejected, and also when a
  call of the \<^verbatim>\<open>then\<close> handler throws. While the request is pending no handler
  runs. When the log call or the request itself throws, the function throws to its
  caller and no handler is attached. Calling the throttled
  \<^verbatim>\<open>reauthenticatePusher\<close> is an effect of its own.
\<close>

definition authenticatePusher ::
  "coordinator_consts \<Rightarrow> (effect \<Rightarrow> bool) \<Rightarrow> string \<Rightarrow> string
   \<Rightarrow> response option request_outcome \<Rightarrow> effect list \<times> effect list" where
  "authenticatePusher K throws socketID channelName request =
     (let (started, threw) =
            run_calls throws
              [LogInfo ''[PusherAuthorizer] Attempting to authorize Pusher'' False False,
               MakeRequestWithSideEffects ''AuthenticatePusher''
                 [(''socket_id'', VStr socketID),
                  (''channel_name'', VStr channelName),
                  (''shouldRetry'', VBool False),
                  (''forceNetworkRequest'', VBool True)]]
      in if threw then (started, [])
         else (started,
               (case request of
                  Fulfilled response \<Rightarrow>
                    (let (made, thrown) = run_calls throws (then_handler K response)
                     in if thrown then made @ fst (run_calls throws catch_handler) else made)
                | RejectedWith error \<Rightarrow> fst (run_calls throws catch_handler)
                | StaysPending \<Rightarrow> [])))"

fun is_callback :: "effect \<Rightarrow> bool" where
  "is_callback (Callback e payload) = True"
| "is_callback _ = False"

subsection \<open>canAccessRouteByAnonymousUser\<close>

text \<open>
  \<^verbatim>\<open>subject.replace(pattern, replacement)\<close> with a string pattern: the first
  occurrence of the pattern is replaced (the replacement used here has no \<^verbatim>\<open>$\<close>).
\<close>

fun js_replace :: "string \<Rightarrow> string \<Rightarrow> string \<Rightarrow> string" where
  "js_replace [] pattern replacement = (if pattern = [] then replacement else [])"
| "js_replace (c # cs) pattern replacement =
     (if prefix pattern (c # cs) then replacement @ drop (length pattern) (c # cs)
      else c # js_replace cs pattern replacement)"

definition routesCanAccessByAnonymousUser :: "route_consts \<Rightarrow> string list" where
  "routesCanAccessByAnonymousUser R =
     [SIGN_IN_MODAL R, REPORT_WITH_ID_DETAILS_route R,
      REPORT_WITH_ID_DETAILS_SHARE_CODE_route R]"

text \<open>
  The route as the check compares it: the parsed report id, when there is one, replaced
  by the placeholder, then the first character dropped when the route as given starts
  with a slash.
\<close>

definition routeRemovedReportId :: "report_utils \<Rightarrow> string \<Rightarrow> string" where
  "routeRemovedReportId U route =
     (let replaced =
            (case parseReportRouteParams U route of
               None \<Rightarrow> route
             | Some reportID \<Rightarrow>
                 if reportID \<noteq> [] then js_replace route reportID '':reportID'' else route)
      in if prefix ''/'' route then drop 1 replaced else replaced)"

definition canAccessRouteByAnonymousUser :: "route_consts \<Rightarrow> report_utils \<Rightarrow> string \<Rightarrow> bool" where
  "canAccessRouteByAnonymousUser R U route =
     (if truthy (getReportIDFromLink U (Some route)) then True
      else if List.member (routesCanAccessByAnonymousUser R) (routeRemovedReportId U route)
      then True
      else False)"



section \<open>The social security number step\<close>

type_synonym form_values = "(string \<times> string) list"
type_synonym form_errors = "(string \<times> string) list"

text \<open>The two functions of \<^verbatim>\<open>ValidationUtils\<close> that the step's validation calls.\<close>

record validation_utils =
  getFieldRequiredErrors :: "form_values \<Rightarrow> string list \<Rightarrow> form_errors"
  isValidSSNLastFour :: "string \<Rightarrow> bool"

text \<open>The step's fields; \<open>SSN_LAST_4\<close> is the input id of that name.\<close>

definition STEP_FIELDS :: "string \<Rightarrow> string list" where
  "STEP_FIELDS SSN_LAST_4 = [SSN_LAST_4]"

definition validate :: "validation_utils \<Rightarrow> string \<Rightarrow> form_values \<Rightarrow> form_errors" where
  "validate V SSN_LAST_4 values =
     (let errors = getFieldRequiredErrors V values (STEP_FIELDS SSN_LAST_4)
      in case map_of values ''ssn'' of
           None \<Rightarrow> errors
         | Some ssn \<Rightarrow>
             if ssn \<noteq> [] \<and> \<not> isValidSSNLastFour V ssn
             then AList.update ''ssn'' ''bankAccount.error.ssnLast4'' errors
             else errors)"

section \<open>Auxiliary predicates and sample values\<close>

text \<open>
  A trigger lies in the window that \<open>start\<close> opened; the end of a window may come at
  any time.
\<close>

fun within_window :: "nat \<Rightarrow> nat \<Rightarrow> throttle_event \<Rightarrow> bool" where
  "within_window start wait (Trigger t) = (start \<le> t \<and> t < start + wait)"
| "within_window start wait (WindowEnd t) = True"

text \<open>A promise that is pending and that the resolver slot no longer points to.\<close>

definition overwritten :: "nat \<Rightarrow> module_state \<Rightarrow> bool" where
  "overwritten p st \<longleftrightarrow>
     p < length (promises st) \<and> promises st ! p = Pending \<and> authPromiseResolver st \<noteq> Some p"

text \<open>Concrete values on which the theorems below are instantiated.\<close>

definition sample_consts :: coordinator_consts where
  "sample_consts =
     \<lparr>PARTNER_NAME = ''chat-expensify-com'', PARTNER_PASSWORD = ''partner-password'',
      ROUTES = \<lparr>SIGN_IN_MODAL = ''sign-in-modal'',
                REPORT_WITH_ID_DETAILS_route = ''r/:reportID/details'',
                REPORT_WITH_ID_DETAILS_SHARE_CODE_route = ''r/:reportID/details/shareCode''\<rparr>,
      DEFAULT_ACCOUNT_DATA =
        [(''errors'', VNull), (''success'', VStr []), (''isLoading'', VBool False)],
      VALIDATE_TFA_CODE_FORM = ''ValidateTfaCodeForm'',
      VALIDATE_CODE_FORM = ''ValidateCodeForm'',
      JSON_CODE_SUCCESS = 200, JSON_CODE_NOT_AUTHENTICATED = 407\<rparr>"

definition anonymous_state :: module_state where
  "anonymous_state = initial_state\<lparr>sessionAuthTokenType := Some ''anonymousAccount''\<rparr>"

definition signed_in_session :: "obj option" where
  "signed_in_session = Some [(''authToken'', VStr ''abc''), (''authTokenType'', VStr [])]"

definition sample_response :: "int \<Rightarrow> response" where
  "sample_response code =
     \<lparr>jsonCode = Some code, message = Some ''status'', auth = Some ''key:signature'',
      channel_data = None, shared_secret = None\<rparr>"

fun is_digit :: "char \<Rightarrow> bool" where
  "is_digit c = (c \<in> set ''0123456789'')"

definition sample_validation_utils :: validation_utils where
  "sample_validation_utils =
     \<lparr>getFieldRequiredErrors =
        (\<lambda>values fields.
           map (\<lambda>f. (f, ''common.error.fieldRequired''))
             (filter (\<lambda>f. case map_of values f of None \<Rightarrow> True | Some v \<Rightarrow> v = []) fields)),
      isValidSSNLastFour = (\<lambda>s. length s = 4 \<and> list_all is_digit s)\<rparr>"

definition sample_report_utils :: report_utils where
  "sample_report_utils =
     \<lparr>getReportIDFromLink = (\<lambda>link. None),
      parseReportRouteParams =
        (\<lambda>route. if prefix ''r/'' route \<or> prefix ''/r/'' route
                  then Some (takeWhile (\<lambda>c. c \<noteq> CHR ''/'')
                               (drop (if prefix ''/'' route then 3 else 2) route))
                  else Some [])\<rparr>"

section \<open>Properties\<close>

subsection \<open>Promises and the resolver slot\<close>

lemma resolve_no_reject: "Rejected \<notin> set ps \<Longrightarrow> Rejected \<notin> set (resolve p v ps)"
proof -
  assume a: "Rejected \<notin> set ps"
  have "set (ps[p := Resolved v]) \<subseteq> insert (Resolved v) (set ps)"
    by (rule set_update_subset_insert)
  with a show ?thesis by (auto simp add: resolve_def)
qed

lemma waitForUserSignIn_promise: "snd (waitForUserSignIn st) = length (promises st)"
  by (simp add: waitForUserSignIn_def Let_def)

lemma waitForUserSignIn_signed_in:
  assumes "truthy (sessionAuthToken st)"
  shows "promises (fst (waitForUserSignIn st)) = promises st @ [Resolved True]"
    and "authPromiseResolver (fst (waitForUserSignIn st)) = authPromiseResolver st"
  using assms by (simp_all add: waitForUserSignIn_def Let_def resolve_def)

lemma waitForUserSignIn_waiting:
  assumes "\<not> truthy (sessionAuthToken st)"
  shows "promises (fst (waitForUserSignIn st)) = promises st @ [Pending]"
    and "authPromiseResolver (fst (waitForUserSignIn st)) = Some (length (promises st))"
    and "sessionAuthToken (fst (waitForUserSignIn st)) = sessionAuthToken st"
  using assms by (simp_all add: waitForUserSignIn_def Let_def)

lemma sessionCallback_token:
  "sessionAuthToken (sessionCallback session st) = session_field session ''authToken''"
  by (simp add: sessionCallback_def Let_def split: option.splits)

lemma sessionCallback_resolves:
  assumes "authPromiseResolver st = Some p" "p < length (promises st)" "promises st ! p = Pending"
    and "truthy (session_field session ''authToken'')"
  shows "promises (sessionCallback session st) ! p = Resolved True"
    and "authPromiseResolver (sessionCallback session st) = None"
  using assms by (simp_all add: sessionCallback_def Let_def resolve_def)

lemma sessionCallback_keeps_waiting:
  assumes "\<not> truthy (session_field session ''authToken'')"
  shows "promises (sessionCallback session st) = promises st"
    and "authPromiseResolver (sessionCallback session st) = authPromiseResolver st"
  using assms by (simp_all add: sessionCallback_def Let_def split: option.splits)

lemma step_no_reject:
  "Rejected \<notin> set (promises st) \<Longrightarrow> Rejected \<notin> set (promises (step x st))"
proof (cases x)
  case WaitForUserSignIn
  assume a: "Rejected \<notin> set (promises st)"
  then have "Rejected \<notin> set (promises st @ [Pending])" by simp
  then have "Rejected \<notin> set (resolve (length (promises st)) True (promises st @ [Pending]))"
    by (rule resolve_no_reject)
  with a WaitForUserSignIn show ?thesis
    by (simp add: waitForUserSignIn_def Let_def)
next
  case (SessionChanged session)
  assume a: "Rejected \<notin> set (promises st)"
  then show ?thesis using SessionChanged
    by (simp add: sessionCallback_def Let_def resolve_no_reject split: option.splits)
qed

lemma run_ops_no_reject:
  "Rejected \<notin> set (promises st) \<Longrightarrow> Rejected \<notin> set (promises (run_ops ops st))"
  by (induction ops arbitrary: st) (simp_all add: step_no_reject)

lemma step_overwritten: "overwritten p st \<Longrightarrow> overwritten p (step x st)"
proof (cases x)
  case WaitForUserSignIn
  assume "overwritten p st"
  then show ?thesis using WaitForUserSignIn
    by (auto simp add: overwritten_def waitForUserSignIn_def Let_def resolve_def nth_append)
next
  case (SessionChanged session)
  assume "overwritten p st"
  then show ?thesis using SessionChanged
    by (auto simp add: overwritten_def sessionCallback_def Let_def resolve_def
        split: option.splits)
qed

lemma run_ops_overwritten: "overwritten p st \<Longrightarrow> overwritten p (run_ops ops st)"
  by (induction ops arbitrary: st) (simp_all add: step_overwritten)

lemma second_wait_overwrites:
  assumes "\<not> truthy (sessionAuthToken st)"
  shows "overwritten (snd (waitForUserSignIn st))
           (fst (waitForUserSignIn (fst (waitForUserSignIn st))))"
    and "authPromiseResolver (fst (waitForUserSignIn (fst (waitForUserSignIn st))))
           = Some (snd (waitForUserSignIn (fst (waitForUserSignIn st))))"
    and "snd (waitForUserSignIn (fst (waitForUserSignIn st))) = Suc (snd (waitForUserSignIn st))"
  using assms
  by (simp_all add: overwritten_def waitForUserSignIn_promise waitForUserSignIn_waiting
      nth_append)

subsection \<open>The throttle\<close>

lemma throttle_step_in_window:
  assumes "lastInvokeTime ts = Some start" "\<not> trailingPending ts" "within_window start wait e"
  shows "throttle_step wait \<lparr>trailing = False\<rparr> e ts = ts"
  using assms by (cases e) (simp_all add: window_open_def)

lemma throttle_run_in_window:
  assumes "lastInvokeTime ts = Some start" "\<not> trailingPending ts"
    and "\<forall>e \<in> set es. within_window start wait e"
  shows "throttle_run wait \<lparr>trailing = False\<rparr> es ts = ts"
  using assms
proof (induction es)
  case Nil
  then show ?case by simp
next
  case (Cons e es)
  then have "throttle_step wait \<lparr>trailing = False\<rparr> e ts = ts"
    by (simp add: throttle_step_in_window)
  with Cons show ?case by simp
qed

text \<open>A trigger at the end of the window is executed again: the window is 5000 ms.\<close>

lemma reauthenticatePusher_after_window:
  "executions (reauthenticatePusher [Trigger start, Trigger (start + 5000)] throttle_start) = 2"
  by (simp add: reauthenticatePusher_def reauthenticatePusher_options_def
      reauthenticatePusher_wait_def throttle_start_def window_open_def)

subsection \<open>Replacing the report id in a route\<close>



lemma js_replace_leading_slash:
  assumes "pattern \<noteq> []" "hd pattern \<noteq> CHR ''/''"
  shows "js_replace (CHR ''/'' # rest) pattern replacement
           = CHR ''/'' # js_replace rest pattern replacement"
  using assms by (cases pattern) simp_all

text \<open>
  For a report id that does not start with a slash, dropping the first character after
  the replacement is stripping the leading slash before it.
\<close>

lemma routeRemovedReportId_slash:
  assumes "parseReportRouteParams U (CHR ''/'' # rest) = Some reportID"
    and "reportID \<noteq> []" "hd reportID \<noteq> CHR ''/''"
  shows "routeRemovedReportId U (CHR ''/'' # rest) = js_replace rest reportID '':reportID''"
  using assms
  by (simp add: routeRemovedReportId_def js_replace_leading_slash del: js_replace.simps)

lemma routeRemovedReportId_examples:
  "routeRemovedReportId sample_report_utils ''/r/42/details'' = ''r/:reportID/details''"
  "routeRemovedReportId sample_report_utils ''r/42/details/shareCode''
     = ''r/:reportID/details/shareCode''"
  "routeRemovedReportId sample_report_utils ''/sign-in-modal'' = ''sign-in-modal''"
  "routeRemovedReportId sample_report_utils ''settings/profile'' = ''settings/profile''"
  by (simp_all add: routeRemovedReportId_def sample_report_utils_def)

lemma canAccessRouteByAnonymousUser_examples:
  "canAccessRouteByAnonymousUser (ROUTES sample_consts) sample_report_utils ''/r/42/details''"
  "canAccessRouteByAnonymousUser (ROUTES sample_consts) sample_report_utils ''sign-in-modal''"
  "\<not> canAccessRouteByAnonymousUser (ROUTES sample_consts) sample_report_utils ''settings/profile''"
  "\<not> canAccessRouteByAnonymousUser (ROUTES sample_consts) sample_report_utils ''r/42/members''"
  by (simp_all add: canAccessRouteByAnonymousUser_def routesCanAccessByAnonymousUser_def
      routeRemovedReportId_def sample_report_utils_def sample_consts_def)

subsection \<open>The claims\<close>

text \<open>
  C1. For every cached state, initAutoAuthState issues one merge into the session, whose
  only property is autoAuthState: JUST_SIGNED_IN when the cached state is SIGNING_IN or
  JUST_SIGNED_IN, NOT_STARTED for FAILED and NOT_STARTED. On the store, the session's
  autoAuthState takes that value, every other property of the session and every other
  key stay as they were.
\<close>

theorem initAutoAuthState_resets_state:
  "length (initAutoAuthState c) = 1
   \<and> (\<exists>v. initAutoAuthState c = [OnyxMerge SESSION [(''autoAuthState'', VAutoAuth v)]]
        \<and> v = (case c of SIGNING_IN \<Rightarrow> JUST_SIGNED_IN | JUST_SIGNED_IN \<Rightarrow> JUST_SIGNED_IN
                 | FAILED \<Rightarrow> NOT_STARTED | NOT_STARTED \<Rightarrow> NOT_STARTED)
        \<and> run_effects (initAutoAuthState c) s =
            s(SESSION := onyx_merge_obj (s SESSION) [(''autoAuthState'', VAutoAuth v)])
        \<and> map_of (run_effects (initAutoAuthState c) s SESSION) =
            (map_of (s SESSION))(''autoAuthState'' \<mapsto> VAutoAuth v))"
  by (cases c) (simp_all add: initAutoAuthState_def signedInStates_def update_conv')

text \<open>
  C2. checkIfActionIsAllowed returns the callback itself when the user is not anonymous
  or the action is marked as allowed for anonymous users. Otherwise it returns a
  replacement which, when invoked, performs signOutAndRedirectToSignIn: the replacement
  is the same whatever the callback is, so the callback is never called through it.
  (The flag's default, false, is the value a caller that omits it passes.)
\<close>

theorem checkIfActionIsAllowed_gate:
  "(\<not> isAnonymousUser st \<or> isAnonymousAction
      \<longrightarrow> checkIfActionIsAllowed K st fn isAnonymousAction = Inl fn)
   \<and> (isAnonymousUser st \<and> \<not> isAnonymousAction
      \<longrightarrow> checkIfActionIsAllowed K st fn isAnonymousAction
            = Inr (signOutAndRedirectToSignIn K))"
  by (auto simp add: checkIfActionIsAllowed_def)

theorem checkIfActionIsAllowed_gate_witness:
  "isAnonymousUser anonymous_state
   \<and> checkIfActionIsAllowed sample_consts anonymous_state Suc False
       = Inr (signOutAndRedirectToSignIn sample_consts)
   \<and> checkIfActionIsAllowed sample_consts anonymous_state Suc True = Inl Suc
   \<and> \<not> isAnonymousUser initial_state
   \<and> checkIfActionIsAllowed sample_consts initial_state Suc False = Inl Suc"
  using checkIfActionIsAllowed_gate [where st = anonymous_state and isAnonymousAction = False
          and K = sample_consts and fn = Suc]
        checkIfActionIsAllowed_gate [where st = anonymous_state and isAnonymousAction = True
          and K = sample_consts and fn = Suc]
        checkIfActionIsAllowed_gate [where st = initial_state and isAnonymousAction = False
          and K = sample_consts and fn = Suc]
  by (simp add: isAnonymousUser_def anonymous_state_def initial_state_def)

text \<open>
  C3. waitForUserSignIn returns a promise that is resolved to true at once when the
  session token is truthy at the call, and leaves the resolver slot alone. With no token
  the promise is pending and the single resolver slot points to it. A session change
  with a truthy token resolves the promise in the slot to true and empties the slot; one
  without a truthy token leaves both as they are, so the promise is resolved at the first
  truthy token observed. No sequence of calls and session changes rejects a promise. A
  second call while the first promise is pending takes the slot: from then on the slot
  points to the second promise, and the first one stays pending whatever happens.
\<close>

theorem waitForUserSignIn_single_waiter:
  "(truthy (sessionAuthToken st) \<longrightarrow>
      promises (fst (waitForUserSignIn st)) ! snd (waitForUserSignIn st) = Resolved True
      \<and> authPromiseResolver (fst (waitForUserSignIn st)) = authPromiseResolver st)
   \<and> (\<not> truthy (sessionAuthToken st) \<longrightarrow>
      promises (fst (waitForUserSignIn st)) ! snd (waitForUserSignIn st) = Pending
      \<and> authPromiseResolver (fst (waitForUserSignIn st)) = Some (snd (waitForUserSignIn st)))
   \<and> (authPromiseResolver st = Some p \<and> p < length (promises st) \<and> promises st ! p = Pending \<longrightarrow>
      (if truthy (session_field session ''authToken'')
       then promises (sessionCallback session st) ! p = Resolved True
            \<and> authPromiseResolver (sessionCallback session st) = None
       else promises (sessionCallback session st) ! p = Pending
            \<and> authPromiseResolver (sessionCallback session st) = Some p))
   \<and> (Rejected \<notin> set (promises st) \<longrightarrow> Rejected \<notin> set (promises (run_ops ops st)))
   \<and> (\<not> truthy (sessionAuthToken st) \<longrightarrow>
      snd (waitForUserSignIn (fst (waitForUserSignIn st))) \<noteq> snd (waitForUserSignIn st)
      \<and> authPromiseResolver (fst (waitForUserSignIn (fst (waitForUserSignIn st))))
          = Some (snd (waitForUserSignIn (fst (waitForUserSignIn st))))
      \<and> promises (run_ops ops (fst (waitForUserSignIn (fst (waitForUserSignIn st)))))
          ! snd (waitForUserSignIn st) = Pending)"
proof (intro conjI impI)
  assume "truthy (sessionAuthToken st)"
  then show "promises (fst (waitForUserSignIn st)) ! snd (waitForUserSignIn st) = Resolved True"
    and "authPromiseResolver (fst (waitForUserSignIn st)) = authPromiseResolver st"
    by (simp_all add: waitForUserSignIn_signed_in waitForUserSignIn_promise)
next
  assume "\<not> truthy (sessionAuthToken st)"
  then show "promises (fst (waitForUserSignIn st)) ! snd (waitForUserSignIn st) = Pending"
    and "authPromiseResolver (fst (waitForUserSignIn st)) = Some (snd (waitForUserSignIn st))"
    by (simp_all add: waitForUserSignIn_waiting waitForUserSignIn_promise)
next
  assume a: "authPromiseResolver st = Some p \<and> p < length (promises st)
             \<and> promises st ! p = Pending"
  show "if truthy (session_field session ''authToken'')
       then promises (sessionCallback session st) ! p = Resolved True
            \<and> authPromiseResolver (sessionCallback session st) = None
       else promises (sessionCallback session st) ! p = Pending
            \<and> authPromiseResolver (sessionCallback session st) = Some p"
    using a by (simp add: sessionCallback_resolves sessionCallback_keeps_waiting)
next
  assume "Rejected \<notin> set (promises st)"
  then show "Rejected \<notin> set (promises (run_ops ops st))"
    by (rule run_ops_no_reject)
next
  assume a: "\<not> truthy (sessionAuthToken st)"
  then show "snd (waitForUserSignIn (fst (waitForUserSignIn st))) \<noteq> snd (waitForUserSignIn st)"
    by (simp add: second_wait_overwrites(3))
  from a show "authPromiseResolver (fst (waitForUserSignIn (fst (waitForUserSignIn st))))
          = Some (snd (waitForUserSignIn (fst (waitForUserSignIn st))))"
    by (rule second_wait_overwrites(2))
  from a have "overwritten (snd (waitForUserSignIn st))
                 (fst (waitForUserSignIn (fst (waitForUserSignIn st))))"
    by (rule second_wait_overwrites(1))
  then have "overwritten (snd (waitForUserSignIn st))
               (run_ops ops (fst (waitForUserSignIn (fst (waitForUserSignIn st)))))"
    by (rule run_ops_overwritten)
  then show "promises (run_ops ops (fst (waitForUserSignIn (fst (waitForUserSignIn st)))))
          ! snd (waitForUserSignIn st) = Pending"
    by (simp add: overwritten_def)
qed

theorem waitForUserSignIn_single_waiter_witness:
  "promises (fst (waitForUserSignIn (initial_state\<lparr>sessionAuthToken := Some ''abc''\<rparr>))) ! 0
     = Resolved True
   \<and> authPromiseResolver (fst (waitForUserSignIn (initial_state\<lparr>sessionAuthToken := Some ''abc''\<rparr>)))
       = None
   \<and> promises (fst (waitForUserSignIn initial_state)) ! 0 = Pending
   \<and> authPromiseResolver (fst (waitForUserSignIn initial_state)) = Some 0
   \<and> promises (sessionCallback signed_in_session (fst (waitForUserSignIn initial_state))) ! 0
       = Resolved True
   \<and> authPromiseResolver (sessionCallback signed_in_session (fst (waitForUserSignIn initial_state)))
       = None
   \<and> Rejected \<notin> set (promises (run_ops [WaitForUserSignIn, SessionChanged signed_in_session]
                                 initial_state))
   \<and> authPromiseResolver (run_ops [WaitForUserSignIn, WaitForUserSignIn] initial_state) = Some 1
   \<and> promises (run_ops [SessionChanged signed_in_session]
                 (run_ops [WaitForUserSignIn, WaitForUserSignIn] initial_state)) ! 0 = Pending"
  using waitForUserSignIn_single_waiter
          [where st = "initial_state\<lparr>sessionAuthToken := Some ''abc''\<rparr>" and p = 0
             and session = signed_in_session and ops = "[]"]
        waitForUserSignIn_single_waiter
          [where st = initial_state and p = 0 and session = signed_in_session
             and ops = "[SessionChanged signed_in_session]"]
        waitForUserSignIn_single_waiter
          [where st = "fst (waitForUserSignIn initial_state)" and p = 0
             and session = signed_in_session and ops = "[]"]
        waitForUserSignIn_single_waiter
          [where st = initial_state and p = 0 and session = signed_in_session
             and ops = "[WaitForUserSignIn, SessionChanged signed_in_session]"]
  by (simp add: waitForUserSignIn_promise initial_state_def signed_in_session_def
        waitForUserSignIn_def sessionCallback_def resolve_def Let_def)

text \<open>
  C4 (amended). authenticatePusher never invokes the callback before the request has
  settled, and not at all while it stays pending. When the request settles and every
  call the handlers make returns normally, the callback has been invoked exactly once:
  (a) on the not-authenticated code the callback gets the expired-token error and the
  throttled re-authentication is called once; (b) on any other code that is not the
  success code, and on a response without a code, the callback gets an error that names
  code and message, different from the two other errors, and no re-authentication is
  called; (c) on the success code (a code other than the not-authenticated one) the
  callback gets no error and the response itself; (d) when the request is rejected the
  callback gets the request-failed error, and no re-authentication is called.
\<close>

theorem authenticatePusher_outcomes:
  "filter is_callback (fst (authenticatePusher K throws socketID channelName request)) = []
   \<and> snd (authenticatePusher K throws socketID channelName StaysPending) = []
   \<and> ((\<forall>c. \<not> throws c) \<longrightarrow>
        (request \<noteq> StaysPending \<longrightarrow>
           length (filter is_callback
                     (snd (authenticatePusher K throws socketID channelName request))) = 1)
        \<and> (response_jsonCode r = Some (JSON_CODE_NOT_AUTHENTICATED K) \<longrightarrow>
             filter is_callback
               (snd (authenticatePusher K throws socketID channelName (Fulfilled r))) =
               [Callback (Some ''Pusher failed to authenticate because authToken is expired'')
                  (Some failedAuthorization)]
             \<and> count_list (snd (authenticatePusher K throws socketID channelName (Fulfilled r)))
                  ReauthenticatePusherCall = 1)
        \<and> (response_jsonCode r \<noteq> Some (JSON_CODE_NOT_AUTHENTICATED K)
             \<and> response_jsonCode r \<noteq> Some (JSON_CODE_SUCCESS K) \<longrightarrow>
             (\<exists>msg. filter is_callback
                      (snd (authenticatePusher K throws socketID channelName (Fulfilled r))) =
                      [Callback (Some msg) (Some failedAuthorization)]
                    \<and> msg \<noteq> ''Pusher failed to authenticate because authToken is expired''
                    \<and> msg \<noteq> ''AuthenticatePusher request failed'')
             \<and> ReauthenticatePusherCall
                  \<notin> set (snd (authenticatePusher K throws socketID channelName (Fulfilled r))))
        \<and> (response_jsonCode r = Some (JSON_CODE_SUCCESS K)
             \<and> JSON_CODE_SUCCESS K \<noteq> JSON_CODE_NOT_AUTHENTICATED K \<longrightarrow>
             filter is_callback
               (snd (authenticatePusher K throws socketID channelName (Fulfilled r))) =
               [Callback None r]
             \<and> ReauthenticatePusherCall
                  \<notin> set (snd (authenticatePusher K throws socketID channelName (Fulfilled r))))
        \<and> filter is_callback
             (snd (authenticatePusher K throws socketID channelName (RejectedWith e))) =
             [Callback (Some ''AuthenticatePusher request failed'') (Some failedAuthorization)]
        \<and> ReauthenticatePusherCall
             \<notin> set (snd (authenticatePusher K throws socketID channelName (RejectedWith e))))"
proof (intro conjI impI)
  show "filter is_callback (fst (authenticatePusher K throws socketID channelName request)) = []"
    by (simp add: authenticatePusher_def Let_def)
  show "snd (authenticatePusher K throws socketID channelName StaysPending) = []"
    by (simp add: authenticatePusher_def Let_def)
next
  assume quiet: "\<forall>c. \<not> throws c"
  assume "request \<noteq> StaysPending"
  then show "length (filter is_callback
                (snd (authenticatePusher K throws socketID channelName request))) = 1"
    using quiet
    by (cases request)
       (simp_all add: authenticatePusher_def then_handler_def catch_handler_def Let_def)
next
  assume quiet: "\<forall>c. \<not> throws c"
  assume "response_jsonCode r = Some (JSON_CODE_NOT_AUTHENTICATED K)"
  then show "filter is_callback
               (snd (authenticatePusher K throws socketID channelName (Fulfilled r))) =
               [Callback (Some ''Pusher failed to authenticate because authToken is expired'')
                  (Some failedAuthorization)]"
    and "count_list (snd (authenticatePusher K throws socketID channelName (Fulfilled r)))
           ReauthenticatePusherCall = 1"
    using quiet by (simp_all add: authenticatePusher_def then_handler_def Let_def)
next
  assume quiet: "\<forall>c. \<not> throws c"
  assume "response_jsonCode r \<noteq> Some (JSON_CODE_NOT_AUTHENTICATED K)
          \<and> response_jsonCode r \<noteq> Some (JSON_CODE_SUCCESS K)"
  then show "\<exists>msg. filter is_callback
                      (snd (authenticatePusher K throws socketID channelName (Fulfilled r))) =
                      [Callback (Some msg) (Some failedAuthorization)]
                    \<and> msg \<noteq> ''Pusher failed to authenticate because authToken is expired''
                    \<and> msg \<noteq> ''AuthenticatePusher request failed''"
    and "ReauthenticatePusherCall
           \<notin> set (snd (authenticatePusher K throws socketID channelName (Fulfilled r)))"
    using quiet by (simp_all add: authenticatePusher_def then_handler_def Let_def)
next
  assume quiet: "\<forall>c. \<not> throws c"
  assume "response_jsonCode r = Some (JSON_CODE_SUCCESS K)
          \<and> JSON_CODE_SUCCESS K \<noteq> JSON_CODE_NOT_AUTHENTICATED K"
  then show "filter is_callback
               (snd (authenticatePusher K throws socketID channelName (Fulfilled r))) =
               [Callback None r]"
    and "ReauthenticatePusherCall
           \<notin> set (snd (authenticatePusher K throws socketID channelName (Fulfilled r)))"
    using quiet by (simp_all add: authenticatePusher_def then_handler_def Let_def)
next
  assume quiet: "\<forall>c. \<not> throws c"
  then show "filter is_callback
             (snd (authenticatePusher K throws socketID channelName (RejectedWith e))) =
             [Callback (Some ''AuthenticatePusher request failed'') (Some failedAuthorization)]"
    and "ReauthenticatePusherCall
           \<notin> set (snd (authenticatePusher K throws socketID channelName (RejectedWith e)))"
    by (simp_all add: authenticatePusher_def catch_handler_def Let_def)
qed

theorem authenticatePusher_outcomes_witness:
  "filter is_callback
     (snd (authenticatePusher sample_consts (\<lambda>c. False) ''1.2'' ''private-user''
             (Fulfilled (Some (sample_response 407)))))
     = [Callback (Some ''Pusher failed to authenticate because authToken is expired'')
          (Some failedAuthorization)]
   \<and> count_list
       (snd (authenticatePusher sample_consts (\<lambda>c. False) ''1.2'' ''private-user''
               (Fulfilled (Some (sample_response 407)))))
       ReauthenticatePusherCall = 1
   \<and> filter is_callback
       (snd (authenticatePusher sample_consts (\<lambda>c. False) ''1.2'' ''private-user''
               (Fulfilled (Some (sample_response 500)))))
       = [Callback (Some ''Pusher failed to authenticate because code: 500 message: status'')
            (Some failedAuthorization)]
   \<and> ReauthenticatePusherCall
       \<notin> set (snd (authenticatePusher sample_consts (\<lambda>c. False) ''1.2'' ''private-user''
                     (Fulfilled (Some (sample_response 500)))))
   \<and> filter is_callback
       (snd (authenticatePusher sample_consts (\<lambda>c. False) ''1.2'' ''private-user''
               (Fulfilled None)))
       = [Callback
            (Some ''Pusher failed to authenticate because code: undefined message: undefined'')
            (Some failedAuthorization)]
   \<and> filter is_callback
       (snd (authenticatePusher sample_consts (\<lambda>c. False) ''1.2'' ''private-user''
               (Fulfilled (Some (sample_response 200)))))
       = [Callback None (Some (sample_response 200))]
   \<and> ReauthenticatePusherCall
       \<notin> set (snd (authenticatePusher sample_consts (\<lambda>c. False) ''1.2'' ''private-user''
                     (Fulfilled (Some (sample_response 200)))))
   \<and> length (filter is_callback
       (snd (authenticatePusher sample_consts (\<lambda>c. False) ''1.2'' ''private-user''
               (RejectedWith ''offline'')))) = 1"
  using authenticatePusher_outcomes
          [where K = sample_consts and throws = "\<lambda>c. False" and socketID = "''1.2''"
             and channelName = "''private-user''"
             and request = "RejectedWith ''offline''" and e = "''offline''"
             and r = "Some (sample_response 407)"]
        authenticatePusher_outcomes
          [where K = sample_consts and throws = "\<lambda>c. False" and socketID = "''1.2''"
             and channelName = "''private-user''"
             and request = "RejectedWith ''offline''" and e = "''offline''"
             and r = "Some (sample_response 500)"]
        authenticatePusher_outcomes
          [where K = sample_consts and throws = "\<lambda>c. False" and socketID = "''1.2''"
             and channelName = "''private-user''"
             and request = "RejectedWith ''offline''" and e = "''offline''"
             and r = "None"]
        authenticatePusher_outcomes
          [where K = sample_consts and throws = "\<lambda>c. False" and socketID = "''1.2''"
             and channelName = "''private-user''"
             and request = "RejectedWith ''offline''" and e = "''offline''"
             and r = "Some (sample_response 200)"]
  by (simp add: sample_consts_def sample_response_def authenticatePusher_def
        then_handler_def catch_handler_def string_of_int_def)

text \<open>
  The claim as stated fails: a request that stays pending leaves the callback
  uninvoked, and a callback that throws when it is handed the authorization is invoked a
  second time, by the \<^verbatim>\<open>catch\<close> handler, with the request-failed error.
\<close>

theorem authenticatePusher_outcomes_counterexample:
  "filter is_callback
     (fst (authenticatePusher sample_consts (\<lambda>c. False) ''1.2'' ''private-user'' StaysPending)
      @ snd (authenticatePusher sample_consts (\<lambda>c. False) ''1.2'' ''private-user'' StaysPending))
     = []
   \<and> filter is_callback
       (snd (authenticatePusher sample_consts
               (\<lambda>c. c = Callback None (Some (sample_response 200)))
               ''1.2'' ''private-user'' (Fulfilled (Some (sample_response 200)))))
       = [Callback None (Some (sample_response 200)),
          Callback (Some ''AuthenticatePusher request failed'') (Some failedAuthorization)]"
  by (simp add: sample_consts_def sample_response_def authenticatePusher_def
        then_handler_def catch_handler_def)

text \<open>
  C5. reauthenticatePusher is the throttle with a wait of 5000 ms and without the
  trailing option. After a first trigger, however many triggers follow within 5000 ms of
  it, and whenever the window ends, the function has been executed exactly once: the
  later triggers are collapsed and nothing is executed for them afterwards.
\<close>

theorem reauthenticatePusher_collapses_window:
  assumes "\<forall>e \<in> set es. within_window start reauthenticatePusher_wait e"
  shows "executions (reauthenticatePusher (Trigger start # es) throttle_start) = 1"
proof -
  let ?ts = "throttle_step reauthenticatePusher_wait \<lparr>trailing = False\<rparr> (Trigger start)
               throttle_start"
  have first: "?ts = \<lparr>lastInvokeTime = Some start, trailingPending = False, executions = 1\<rparr>"
    by (simp add: throttle_start_def window_open_def)
  then have "throttle_run reauthenticatePusher_wait \<lparr>trailing = False\<rparr> es ?ts = ?ts"
    using assms by (intro throttle_run_in_window[where start = start]) simp_all
  with first show ?thesis
    by (simp add: reauthenticatePusher_def reauthenticatePusher_options_def)
qed

theorem reauthenticatePusher_collapses_window_witness:
  "list_all (within_window 1000 5000)
     [Trigger 1000, Trigger 1400, Trigger 2000, Trigger 2600, Trigger 3000, Trigger 3500,
      Trigger 4200, Trigger 5000, Trigger 5999, WindowEnd 6000]
   \<and> executions
       (reauthenticatePusher
          [Trigger 1000, Trigger 1000, Trigger 1400, Trigger 2000, Trigger 2600, Trigger 3000,
           Trigger 3500, Trigger 4200, Trigger 5000, Trigger 5999, WindowEnd 6000]
          throttle_start) = 1"
  using reauthenticatePusher_collapses_window
          [where start = 1000 and es = "[Trigger 1000, Trigger 1400, Trigger 2000,
             Trigger 2600, Trigger 3000, Trigger 3500, Trigger 4200, Trigger 5000,
             Trigger 5999, WindowEnd 6000]"]
  by (simp add: reauthenticatePusher_wait_def)

text \<open>
  C6. With a non-empty token setSupportAuthToken merges four properties into the
  session: authToken (the string 1), supportAuthToken (the token), email and accountID;
  every other property of the session and every other key of the store stay as they
  were. With the empty token the session is set to the empty object.
\<close>

theorem setSupportAuthToken_outcomes:
  "run_effects (setSupportAuthToken (t # ts) email accountID) s =
     s(SESSION := onyx_merge_obj (s SESSION)
         [(''authToken'', VStr ''1''), (''supportAuthToken'', VStr (t # ts)),
          (''email'', VStr email), (''accountID'', VNum accountID)])
   \<and> map_of (run_effects (setSupportAuthToken (t # ts) email accountID) s SESSION) =
       (map_of (s SESSION))
         (''authToken'' \<mapsto> VStr ''1'', ''supportAuthToken'' \<mapsto> VStr (t # ts),
          ''email'' \<mapsto> VStr email, ''accountID'' \<mapsto> VNum accountID)
   \<and> run_effects (setSupportAuthToken [] email accountID) s = s(SESSION := [])
   \<and> map_of (run_effects (setSupportAuthToken [] email accountID) s SESSION) = Map.empty"
  by (simp add: setSupportAuthToken_def update_conv')

text \<open>
  C7. signOut logs first, with the flags that flush the logs, then writes the LogOut
  command (without retry, with the current token), then calls the cache clearing and the
  clearing of the timing data. These four calls are made whatever becomes of the
  command: signOut does the same when the command resolves, rejects or never settles,
  and nothing of the command's end reaches the caller.
\<close>

theorem signOut_cleanup_unconditional:
  "\<exists>params.
     fst (signOut K env st logOutCommand cacheCleared) =
       [LogInfo ''Flushing logs before signing out'' True True, ApiWrite ''LogOut'' params,
        ClearCache, TimingClearData]
     \<and> map_of params ''shouldRetry'' = Some (VBool False)
     \<and> map_of params ''authToken'' = Some (str_or_null (networkAuthToken env))
     \<and> signOut K env st Rejects cacheCleared = signOut K env st Resolves cacheCleared
     \<and> signOut K env st NeverSettles cacheCleared = signOut K env st Resolves cacheCleared"
  by (simp add: signOut_def)

text \<open>
  C8. signInWithValidateCode writes one SigninUserWithLink command. Its validateCode is
  the one of the credentials the module holds when the two-factor code is not empty,
  whatever code the caller passed (with a two-factor code the call does not depend on
  the caller's code at all), and the caller's code when the two-factor code is empty. In both cases the optimistic patches set the session's autoAuthState to
  SIGNING_IN, the success patches to JUST_SIGNED_IN and the failure patches to FAILED.
\<close>

theorem signInWithValidateCode_code_and_patches:
  "\<exists>params d.
     snd (signInWithValidateCode K st accountID code tfa) deviceInfo st'
       = [ApiWriteWithData ''SigninUserWithLink'' params d]
     \<and> map_of params ''validateCode'' =
         Some (if tfa = [] then VStr code
               else str_or_undefined (validateCode (credentials st)))
     \<and> map_of params ''twoFactorAuthCode'' = Some (VStr tfa)
     \<and> signInWithValidateCode K st accountID code (t # ts)
         = signInWithValidateCode K st accountID code' (t # ts)
     \<and> (METHOD_MERGE, SESSION, [(''autoAuthState'', VAutoAuth SIGNING_IN)])
         \<in> set (optimisticData d)
     \<and> (METHOD_MERGE, SESSION, [(''autoAuthState'', VAutoAuth JUST_SIGNED_IN)])
         \<in> set (successData d)
     \<and> (METHOD_MERGE, SESSION, [(''autoAuthState'', VAutoAuth FAILED)])
         \<in> set (failureData d)
     \<and> map_of (apply_updates (optimisticData d) s SESSION) ''autoAuthState''
         = Some (VAutoAuth SIGNING_IN)
     \<and> map_of (apply_updates (successData d) s SESSION) ''autoAuthState''
         = Some (VAutoAuth JUST_SIGNED_IN)
     \<and> map_of (apply_updates (failureData d) s SESSION) ''autoAuthState''
         = Some (VAutoAuth FAILED)"
  by (simp add: signInWithValidateCode_def Let_def update_conv')




text \<open>
  C10. The errors the step's validate returns are those of getFieldRequiredErrors for the
  field SSN_LAST_4, but for the key ssn: every other key holds what the required check
  reported, and when the field SSN_LAST_4 is empty so does its own key, whatever its
  name. Unless the required check itself reported it, the error
  bankAccount.error.ssnLast4 stands under the key ssn exactly when the value of ssn is
  not empty and not a valid last-four number. The required check is keyed by the input
  id, the format check by the literal ssn, and neither looks at the other's result.
\<close>

theorem validate_errors:
  "(\<forall>k. k \<noteq> ''ssn'' \<longrightarrow>
        map_of (validate V f vals) k = map_of (getFieldRequiredErrors V vals [f]) k)
   \<and> (map_of vals f = None \<or> map_of vals f = Some [] \<longrightarrow>
        map_of (validate V f vals) f = map_of (getFieldRequiredErrors V vals [f]) f)
   \<and> (map_of (getFieldRequiredErrors V vals [f]) ''ssn'' \<noteq> Some ''bankAccount.error.ssnLast4''
        \<longrightarrow>
        (map_of (validate V f vals) ''ssn'' = Some ''bankAccount.error.ssnLast4''
         \<longleftrightarrow> (\<exists>ssn. map_of vals ''ssn'' = Some ssn \<and> ssn \<noteq> []
                    \<and> \<not> isValidSSNLastFour V ssn)))"
  by (auto simp add: validate_def STEP_FIELDS_def Let_def update_conv' split: option.splits)

theorem validate_errors_witness:
  "map_of (validate sample_validation_utils ''ssn'' [(''ssn'', ''12a'')]) ''dob''
     = map_of (getFieldRequiredErrors sample_validation_utils [(''ssn'', ''12a'')] [''ssn''])
         ''dob''
   \<and> map_of (validate sample_validation_utils ''ssn'' [(''ssn'', [])]) ''ssn''
       = Some ''common.error.fieldRequired''
   \<and> map_of (validate sample_validation_utils ''ssnLast4'' [(''ssn'', ''12a'')]) ''ssnLast4''
       = Some ''common.error.fieldRequired''
   \<and> map_of (validate sample_validation_utils ''ssnLast4'' [(''ssn'', ''12a'')]) ''ssn''
       = Some ''bankAccount.error.ssnLast4''
   \<and> map_of (validate sample_validation_utils ''ssn'' [(''ssn'', ''12a'')]) ''ssn''
       = Some ''bankAccount.error.ssnLast4''
   \<and> map_of (validate sample_validation_utils ''ssn'' [(''ssn'', ''1234'')]) ''ssn'' = None"
  using validate_errors [where V = sample_validation_utils and f = "''ssn''"
          and vals = "[(''ssn'', ''12a'')]"]
        validate_errors [where V = sample_validation_utils and f = "''ssn''"
          and vals = "[(''ssn'', [])]"]
        validate_errors [where V = sample_validation_utils and f = "''ssnLast4''"
          and vals = "[(''ssn'', ''12a'')]"]
        validate_errors [where V = sample_validation_utils and f = "''ssn''"
          and vals = "[(''ssn'', ''1234'')]"]
  by (simp add: sample_validation_utils_def validate_def STEP_FIELDS_def)

end
